theory Spec2Isabelle
  imports Complex_Main "HOL-Library.FSet" "HOL-Library.Sublist"
begin

section \<open>Strings\<close>

text \<open>
  A Python \<open>str\<close> is a sequence of Unicode code points, and \<open>len\<close>, \<open>re\<close> and
  \<open>strip\<close> work on code points. A text is therefore a list of code points, each a
  natural number. \<open>str\<close> reads an ASCII literal as such a text.
\<close>

type_synonym codepoint = nat
type_synonym ustring = "codepoint list"

definition str :: "string \<Rightarrow> ustring" where
  "str s = map of_char s"

definition SPACE :: codepoint where
  "SPACE = 0x20"

text \<open>
  The whitespace of Python 3 on \<open>str\<close>: the code points on which \<open>str.isspace\<close> holds.
  The class \<open>\s\<close> of \<open>re\<close> and the characters removed by \<open>str.strip()\<close> are this
  same set.
\<close>

definition isspace :: "codepoint \<Rightarrow> bool" where
  "isspace c \<longleftrightarrow>
     (0x09 \<le> c \<and> c \<le> 0x0D) \<or> (0x1C \<le> c \<and> c \<le> 0x20) \<or> c = 0x85 \<or> c = 0xA0 \<or>
     c = 0x1680 \<or> (0x2000 \<le> c \<and> c \<le> 0x200A) \<or> c = 0x2028 \<or> c = 0x2029 \<or>
     c = 0x202F \<or> c = 0x205F \<or> c = 0x3000"

section \<open>Text cleaning\<close>

text \<open>
  The character class of the first substitution of \<open>clean_text\<close>:
  U+2022 (bullet), \<open>*\<close>, \<open>-\<close>, \<open>|\<close>, U+27A2 and U+25AA.
\<close>

definition bullet :: "codepoint \<Rightarrow> bool" where
  "bullet c \<longleftrightarrow> c = 0x2022 \<or> c = 0x2A \<or> c = 0x2D \<or> c = 0x7C \<or> c = 0x27A2 \<or> c = 0x25AA"

text \<open>\<open>re.sub(r'[...]', '', text)\<close>: every character of the class is deleted.\<close>

definition remove_bullets :: "ustring \<Rightarrow> ustring" where
  "remove_bullets t = filter (\<lambda>c. \<not> bullet c) t"

text \<open>
  \<open>re.sub(r'\s+', ' ', text)\<close>: scanning from the left, every maximal run of
  whitespace is replaced by one space.
\<close>

function collapse_spaces :: "ustring \<Rightarrow> ustring" where
  "collapse_spaces [] = []"
| "collapse_spaces (c # cs) =
     (if isspace c then SPACE # collapse_spaces (dropWhile isspace cs)
      else c # collapse_spaces cs)"
  by pat_completeness auto
termination
  by (relation "measure length") (auto simp: length_dropWhile_le less_Suc_eq_le)

text \<open>\<open>str.strip()\<close>: leading and trailing whitespace is removed.\<close>

definition lstrip :: "ustring \<Rightarrow> ustring" where
  "lstrip t = dropWhile isspace t"

definition rstrip :: "ustring \<Rightarrow> ustring" where
  "rstrip t = rev (dropWhile isspace (rev t))"

definition strip :: "ustring \<Rightarrow> ustring" where
  "strip t = rstrip (lstrip t)"

definition clean_text :: "ustring \<Rightarrow> ustring" where
  "clean_text t = (let t1 = remove_bullets t; t2 = strip (collapse_spaces t1) in t2)"


section \<open>External libraries\<close>

text \<open>
  A token of a spaCy document: its surface text, its coarse part-of-speech tag
  (\<open>''NOUN''\<close>, \<open>''PROPN''\<close>, \<open>''VERB''\<close>, ...) and its stop-word flag.
\<close>

record token =
  tok_text :: ustring
  pos :: string
  is_stop :: bool

text \<open>
  The library functions that \<open>extract_keywords\<close> and \<open>calculate_scores\<close> call and that
  are not part of the repository: \<open>str.lower\<close>, the spaCy pipeline \<open>nlp\<close>, the
  sentence encoder \<open>semantic_model.encode\<close> and \<open>util.cos_sim\<close> followed by \<open>.item()\<close>.
  They are parameters of the model. Scores are exact real numbers: the rounding of
  binary floating point is not modelled.
\<close>

record 'v libs =
  lower :: "ustring \<Rightarrow> ustring"
  nlp :: "ustring \<Rightarrow> token list"
  encode :: "ustring \<Rightarrow> 'v"
  cos_sim :: "'v \<Rightarrow> 'v \<Rightarrow> real"

text \<open>
  Modelled from the spec: the cosine similarity of two vectors,
  \<open>dot(v1, v2) / (\<parallel>v1\<parallel> \<sqdot> \<parallel>v2\<parallel>)\<close>; \<open>util.cos_sim\<close> itself belongs to the
  sentence-transformers library.
\<close>

definition dot :: "real list \<Rightarrow> real list \<Rightarrow> real" where
  "dot v1 v2 = sum_list (map2 (*) v1 v2)"

definition cosine :: "real list \<Rightarrow> real list \<Rightarrow> real" where
  "cosine v1 v2 = dot v1 v2 / (sqrt (dot v1 v1) * sqrt (dot v2 v2))"

section \<open>Keyword extraction\<close>

definition ignored :: "ustring fset" where
  "ignored = {|str ''team'', str ''work'', str ''skills'', str ''experience'', str ''role'',
     str ''time'', str ''services'', str ''solutions'', str ''environment''|}"

text \<open>The loop of \<open>extract_keywords\<close> over the tokens, with the set built so far.\<close>

fun keywords_loop :: "token list \<Rightarrow> ustring fset \<Rightarrow> ustring fset" where
  "keywords_loop [] keywords = keywords"
| "keywords_loop (token # doc) keywords =
     (if pos token \<in> set [''NOUN'', ''PROPN''] \<and> \<not> is_stop token \<and> length (tok_text token) > 2
      then (if tok_text token |\<notin>| ignored
            then keywords_loop doc (finsert (tok_text token) keywords)
            else keywords_loop doc keywords)
      else keywords_loop doc keywords)"

definition extract_keywords :: "'v libs \<Rightarrow> ustring \<Rightarrow> ustring fset" where
  "extract_keywords L t =
     (let doc = nlp L (lower L t);
          keywords = {||}
      in keywords_loop doc keywords)"

section \<open>Scoring\<close>

text \<open>
  Python's \<open>round(x, 1)\<close>: the nearest multiple of one tenth, a tie going to the even
  last digit.
\<close>

definition round_half_even :: "real \<Rightarrow> int" where
  "round_half_even x =
     (let f = \<lfloor>x\<rfloor>; d = x - of_int f
      in if d < 1 / 2 then f else if 1 / 2 < d then f + 1 else if even f then f else f + 1)"

definition round1 :: "real \<Rightarrow> real" where
  "round1 x = of_int (round_half_even (x * 10)) / 10"

record 'a report =
  final :: real
  keyword :: real
  semantic :: real
  missing :: "'a fset"
  matched :: "'a fset"

text \<open>Part B of \<open>calculate_scores\<close>, from the two keyword sets.\<close>

definition keyword_score :: "'a fset \<Rightarrow> 'a fset \<Rightarrow> real" where
  "keyword_score res_keys jd_keys =
     (let match_count = fcard (res_keys |\<inter>| jd_keys);
          total_jd_keys = fcard jd_keys
      in if total_jd_keys = 0 then 0
         else (real match_count / real total_jd_keys) * 100)"

text \<open>
  Parts B to D of \<open>calculate_scores\<close> and the dictionary it returns, from the two
  keyword sets and the value of \<open>similarity.item()\<close>.
\<close>

definition score_report :: "'a fset \<Rightarrow> 'a fset \<Rightarrow> real \<Rightarrow> 'a report" where
  "score_report res_keys jd_keys similarity =
     (let keyword_score = keyword_score res_keys jd_keys;
          semantic_score = similarity * 100;
          final_score = (keyword_score * (6 / 10)) + (semantic_score * (4 / 10))
      in \<lparr> final = round1 final_score,
           keyword = round1 keyword_score,
           semantic = round1 semantic_score,
           missing = jd_keys |-| res_keys,
           matched = res_keys |\<inter>| jd_keys \<rparr>)"

definition calculate_scores :: "'v libs \<Rightarrow> ustring \<Rightarrow> ustring \<Rightarrow> ustring report" where
  "calculate_scores L resume_text jd_text =
     (let clean_resume = clean_text resume_text;
          clean_jd = clean_text jd_text;
          res_keys = extract_keywords L clean_resume;
          jd_keys = extract_keywords L clean_jd;
          embedding_1 = encode L clean_resume;
          embedding_2 = encode L clean_jd;
          similarity = cos_sim L embedding_1 embedding_2
      in score_report res_keys jd_keys similarity)"

section \<open>Library calls with the state of the process\<close>

text \<open>
  The same two functions with the state of the process made explicit. \<open>nlp\<close> and
  \<open>semantic_model\<close> are module-level objects, and a call of \<open>nlp\<close>,
  \<open>semantic_model.encode\<close> or \<open>util.cos_sim\<close> may read and change whatever the process
  holds (a cache, a random generator, a counter): each takes the state and returns its
  result with the state it leaves. \<open>str.lower\<close> is a pure builtin.
\<close>

record ('v, 's) stateful_libs =
  str_lower :: "ustring \<Rightarrow> ustring"
  nlp_call :: "ustring \<Rightarrow> 's \<Rightarrow> token list \<times> 's"
  encode_call :: "ustring \<Rightarrow> 's \<Rightarrow> 'v \<times> 's"
  cos_sim_call :: "'v \<Rightarrow> 'v \<Rightarrow> 's \<Rightarrow> real \<times> 's"

definition extract_keywords_run ::
  "('v, 's) stateful_libs \<Rightarrow> ustring \<Rightarrow> 's \<Rightarrow> ustring fset \<times> 's" where
  "extract_keywords_run R t s =
     (let (doc, s1) = nlp_call R (str_lower R t) s;
          keywords = {||}
      in (keywords_loop doc keywords, s1))"

text \<open>
  \<open>calculate_scores\<close> with the state threaded through the five library calls in the
  order of the source: the tagger on the resume, the tagger on the job description,
  the encoder on the resume, the encoder on the job description, the similarity.
\<close>

definition calculate_scores_run ::
  "('v, 's) stateful_libs \<Rightarrow> ustring \<Rightarrow> ustring \<Rightarrow> 's \<Rightarrow> ustring report \<times> 's" where
  "calculate_scores_run R resume_text jd_text s =
     (let clean_resume = clean_text resume_text;
          clean_jd = clean_text jd_text;
          (res_keys, s1) = extract_keywords_run R clean_resume s;
          (jd_keys, s2) = extract_keywords_run R clean_jd s1;
          (embedding_1, s3) = encode_call R clean_resume s2;
          (embedding_2, s4) = encode_call R clean_jd s3;
          (similarity, s5) = cos_sim_call R embedding_1 embedding_2 s4
      in (score_report res_keys jd_keys similarity, s5))"

section \<open>Text extraction\<close>

text \<open>
  A call that can raise: \<open>Raises\<close> stands for an exception of class \<open>Exception\<close>,
  \<open>Returns v\<close> for a normal return.
\<close>

datatype 'a outcome = Raises | Returns 'a

text \<open>
  The uploaded file with its declared content type. The two parsers are library code:
  \<open>PdfReader\<close> gives the pages of a PDF, each with the outcome of its
  \<open>extract_text()\<close> (which may be \<open>None\<close>); \<open>Document\<close> gives the paragraph texts
  of a DOCX file.
\<close>

record uploaded_file =
  type :: string
  content :: "nat list"

type_synonym page = "ustring option outcome"

record parsers =
  PdfReader :: "uploaded_file \<Rightarrow> page list outcome"
  Document :: "uploaded_file \<Rightarrow> ustring list outcome"

text \<open>The loop over the pages: \<open>text += page.extract_text() or ""\<close>.\<close>

fun read_pages :: "page list \<Rightarrow> ustring \<Rightarrow> ustring outcome" where
  "read_pages [] t = Returns t"
| "read_pages (page # pages) t =
     (case page of
        Raises \<Rightarrow> Raises
      | Returns e \<Rightarrow> read_pages pages (t @ (case e of None \<Rightarrow> [] | Some s \<Rightarrow> s)))"

text \<open>\<open>sep.join(xs)\<close>\<close>

fun join :: "ustring \<Rightarrow> ustring list \<Rightarrow> ustring" where
  "join sep [] = []"
| "join sep [x] = x"
| "join sep (x # y # ys) = x @ sep @ join sep (y # ys)"

text \<open>
  The body of the \<open>try\<close> block of \<open>read_file\<close>. Leaving it without reaching a
  \<open>return\<close> gives \<open>None\<close>.
\<close>

definition read_file_body :: "parsers \<Rightarrow> uploaded_file \<Rightarrow> ustring option outcome" where
  "read_file_body P uploaded =
     (if type uploaded = ''application/pdf'' then
        (case PdfReader P uploaded of
           Raises \<Rightarrow> Raises
         | Returns pages \<Rightarrow>
             (case read_pages pages [] of
                Raises \<Rightarrow> Raises
              | Returns t \<Rightarrow> Returns (Some t)))
      else if sublist ''wordprocessingml'' (type uploaded) then
        (case Document P uploaded of
           Raises \<Rightarrow> Raises
         | Returns paragraphs \<Rightarrow> Returns (Some (join [0x0A] paragraphs)))
      else Returns None)"

text \<open>\<open>read_file\<close>: the body under \<open>except Exception: return None\<close>.\<close>

definition read_file :: "parsers \<Rightarrow> uploaded_file \<Rightarrow> ustring option outcome" where
  "read_file P uploaded =
     (case read_file_body P uploaded of
        Raises \<Rightarrow> Returns None
      | Returns v \<Rightarrow> Returns v)"

section \<open>The page\<close>

text \<open>
  What one run of \<open>main\<close> shows below the inputs: nothing when the button was not
  pressed, the error message, the results of an analysis, or nothing at all when the
  extracted text is not truthy.
\<close>

datatype screen = Idle | Error_message | Nothing_shown | Results "ustring report"

text \<open>Truth value of the result of \<open>read_file\<close>: \<open>None\<close> and \<open>""\<close> are false.\<close>

fun truthy :: "ustring option \<Rightarrow> bool" where
  "truthy None = False"
| "truthy (Some s) = (s \<noteq> [])"

definition main :: "parsers \<Rightarrow> 'v libs \<Rightarrow> bool \<Rightarrow> ustring \<Rightarrow> uploaded_file option \<Rightarrow> screen outcome" where
  "main P L button jd_input uploaded =
     (if button then
        (case uploaded of
           Some uploaded_file \<Rightarrow>
             (if jd_input \<noteq> [] then
                (case read_file P uploaded_file of
                   Raises \<Rightarrow> Raises
                 | Returns resume_text \<Rightarrow>
                     (case resume_text of
                        Some t \<Rightarrow>
                          (if truthy resume_text
                           then Returns (Results (calculate_scores L t jd_input))
                           else Returns Nothing_shown)
                      | None \<Rightarrow> Returns Nothing_shown))
              else Returns Error_message)
         | None \<Rightarrow> Returns Error_message)
      else Returns Idle)"

section \<open>Normal form of cleaned text\<close>

text \<open>
  A text in which every whitespace character is a single space that is not followed by
  another whitespace character.
\<close>

fun collapsed :: "ustring \<Rightarrow> bool" where
  "collapsed [] = True"
| "collapsed (c # cs) =
     ((\<not> isspace c \<or> (c = SPACE \<and> (cs = [] \<or> \<not> isspace (hd cs)))) \<and> collapsed cs)"

section \<open>Properties of text cleaning\<close>

lemma isspace_SPACE: "isspace SPACE"
  by (simp add: isspace_def SPACE_def)

lemma not_bullet_SPACE: "\<not> bullet SPACE"
  by (simp add: bullet_def SPACE_def)

lemma collapse_spaces_head:
  "t = [] \<or> \<not> isspace (hd t) \<Longrightarrow> collapse_spaces t = [] \<or> \<not> isspace (hd (collapse_spaces t))"
  by (cases t) auto

lemma dropWhile_head: "dropWhile P xs = [] \<or> \<not> P (hd (dropWhile P xs))"
  using hd_dropWhile [of P xs] by blast

lemma collapsed_collapse_spaces: "collapsed (collapse_spaces t)"
proof (induction t rule: collapse_spaces.induct)
  case 1
  show ?case by simp
next
  case (2 c cs)
  show ?case
  proof (cases "isspace c")
    case True
    have "collapse_spaces (dropWhile isspace cs) = [] \<or>
          \<not> isspace (hd (collapse_spaces (dropWhile isspace cs)))"
      by (rule collapse_spaces_head) (rule dropWhile_head)
    with True 2 show ?thesis by simp
  next
    case False
    with 2 show ?thesis by simp
  qed
qed

lemma collapse_spaces_collapsed: "collapsed t \<Longrightarrow> collapse_spaces t = t"
proof (induction t rule: collapse_spaces.induct)
  case 1
  show ?case by simp
next
  case (2 c cs)
  show ?case
  proof (cases "isspace c")
    case True
    with 2(3) have c: "c = SPACE" and h: "cs = [] \<or> \<not> isspace (hd cs)" and cs: "collapsed cs"
      by auto
    from h have d: "dropWhile isspace cs = cs" by (cases cs) auto
    from 2(1) [OF True] cs d have "collapse_spaces cs = cs" by simp
    with True c d show ?thesis by simp
  next
    case False
    with 2 show ?thesis by simp
  qed
qed

lemma collapsed_append: "collapsed (xs @ ys) \<Longrightarrow> collapsed xs \<and> collapsed ys"
proof (induction xs)
  case Nil
  then show ?case by simp
next
  case (Cons x xs)
  then show ?case by (cases xs) auto
qed

lemma collapsed_lstrip: "collapsed t \<Longrightarrow> collapsed (lstrip t)"
  using collapsed_append [of "takeWhile isspace t" "dropWhile isspace t"]
  by (simp add: lstrip_def)

lemma rstrip_prefix: "rstrip t @ rev (takeWhile isspace (rev t)) = t"
proof -
  have "rev (dropWhile isspace (rev t)) @ rev (takeWhile isspace (rev t))
      = rev (takeWhile isspace (rev t) @ dropWhile isspace (rev t))"
    by (simp only: rev_append)
  also have "\<dots> = rev (rev t)" by (simp only: takeWhile_dropWhile_id)
  also have "\<dots> = t" by simp
  finally show ?thesis unfolding rstrip_def .
qed

lemma collapsed_rstrip: "collapsed t \<Longrightarrow> collapsed (rstrip t)"
  using collapsed_append [of "rstrip t" "rev (takeWhile isspace (rev t))"]
  by (simp add: rstrip_prefix)

lemma collapsed_strip: "collapsed t \<Longrightarrow> collapsed (strip t)"
  by (simp add: strip_def collapsed_lstrip collapsed_rstrip)

lemma rstrip_idem: "rstrip (rstrip t) = rstrip t"
  by (simp add: rstrip_def)

lemma rstrip_head: "t = [] \<or> \<not> isspace (hd t) \<Longrightarrow> rstrip t = [] \<or> \<not> isspace (hd (rstrip t))"
proof (cases "rstrip t")
  case Nil
  then show ?thesis by simp
next
  case (Cons y ys)
  assume h: "t = [] \<or> \<not> isspace (hd t)"
  from Cons rstrip_prefix [of t] have "t = y # (ys @ rev (takeWhile isspace (rev t)))"
    by simp
  then have "hd t = y" and "t \<noteq> []" by (metis list.sel(1), blast)
  with h Cons show ?thesis by simp
qed

lemma lstrip_strip: "lstrip (strip t) = strip t"
proof -
  have "lstrip t = [] \<or> \<not> isspace (hd (lstrip t))"
    unfolding lstrip_def by (rule dropWhile_head)
  then have "strip t = [] \<or> \<not> isspace (hd (strip t))"
    unfolding strip_def by (rule rstrip_head)
  then show ?thesis by (cases "strip t") (auto simp: lstrip_def)
qed

lemma strip_idem: "strip (strip t) = strip t"
proof -
  have "strip (strip t) = rstrip (lstrip (strip t))" by (simp add: strip_def)
  also have "\<dots> = rstrip (strip t)" by (simp only: lstrip_strip)
  also have "\<dots> = strip t" by (simp add: strip_def rstrip_idem)
  finally show ?thesis .
qed

lemma set_collapse_spaces: "set (collapse_spaces t) \<subseteq> insert SPACE (set t)"
proof (induction t rule: collapse_spaces.induct)
  case 1
  show ?case by simp
next
  case (2 c cs)
  show ?case
  proof (cases "isspace c")
    case True
    with 2 have "set (collapse_spaces (dropWhile isspace cs)) \<subseteq> insert SPACE (set (dropWhile isspace cs))"
      by simp
    moreover have "set (dropWhile isspace cs) \<subseteq> set cs" by (auto dest: set_dropWhileD)
    ultimately show ?thesis using True by auto
  next
    case False
    with 2 show ?thesis by auto
  qed
qed

lemma set_strip: "set (strip t) \<subseteq> set t"
proof
  fix x
  assume "x \<in> set (strip t)"
  then have "x \<in> set (dropWhile isspace (rev (lstrip t)))"
    by (simp add: strip_def rstrip_def)
  then have "x \<in> set (rev (lstrip t))" by (rule set_dropWhileD)
  then have "x \<in> set (dropWhile isspace t)" by (simp add: lstrip_def)
  then show "x \<in> set t" by (rule set_dropWhileD)
qed

lemma clean_text_no_bullets: "c \<in> set (clean_text t) \<Longrightarrow> \<not> bullet c"
proof -
  assume "c \<in> set (clean_text t)"
  then have "c \<in> set (collapse_spaces (remove_bullets t))"
    using set_strip by (auto simp: clean_text_def)
  then have "c = SPACE \<or> c \<in> set (remove_bullets t)"
    using set_collapse_spaces by blast
  then show ?thesis by (auto simp: not_bullet_SPACE remove_bullets_def)
qed

lemma remove_bullets_clean_text: "remove_bullets (clean_text t) = clean_text t"
  unfolding remove_bullets_def [of "clean_text t"]
  by (rule filter_True) (simp add: clean_text_no_bullets)

lemma collapsed_clean_text: "collapsed (clean_text t)"
  by (simp add: clean_text_def collapsed_strip collapsed_collapse_spaces)

text \<open>
  Claim C5. Normalization is idempotent: cleaning a text that is already cleaned
  (bullet glyphs deleted, every run of whitespace collapsed to one space, leading and
  trailing whitespace trimmed) gives the same text.
\<close>

theorem clean_text_idempotent: "clean_text (clean_text t) = clean_text t"
proof -
  have "clean_text (clean_text t) = strip (collapse_spaces (remove_bullets (clean_text t)))"
    by (simp add: clean_text_def [of "clean_text t"])
  also have "\<dots> = strip (collapse_spaces (clean_text t))"
    by (simp only: remove_bullets_clean_text)
  also have "\<dots> = strip (clean_text t)"
    by (simp only: collapse_spaces_collapsed [OF collapsed_clean_text])
  also have "\<dots> = clean_text t"
    by (simp add: clean_text_def strip_idem)
  finally show ?thesis .
qed

theorem clean_text_idempotent_witness:
  "clean_text (clean_text [0x20, 0x2022, 0x09, 0x61, 0x20, 0x2D, 0x0A, 0x62, 0x2A, 0x20]) = [0x61, 0x20, 0x62]"
  using clean_text_idempotent [of "[0x20, 0x2022, 0x09, 0x61, 0x20, 0x2D, 0x0A, 0x62, 0x2A, 0x20]"]
  by (simp add: clean_text_def remove_bullets_def bullet_def strip_def lstrip_def rstrip_def isspace_def SPACE_def)

section \<open>Properties of the keyword score\<close>

lemma fcard_inter_le: "fcard (A |\<inter>| B) \<le> fcard B"
  by (simp add: fcard_mono)

lemma ratio_up:
  assumes "m \<le> n" and "0 < n"
  shows "real m / real n * 100 \<le> real (Suc m) / real (Suc n) * 100"
proof -
  have h: "real m / real n \<le> real (Suc m) / real (Suc n)"
    using assms by (simp add: field_simps)
  show ?thesis by (rule mult_right_mono [OF h]) simp
qed

lemma ratio_down:
  assumes "0 < n"
  shows "real m / real (Suc n) * 100 \<le> real m / real n * 100"
proof -
  have h: "real m / real (Suc n) \<le> real m / real n"
    using assms by (simp add: field_simps)
  show ?thesis by (rule mult_right_mono [OF h]) simp
qed

lemma keyword_score_empty: "keyword_score res_keys {||} = 0"
  by (simp add: keyword_score_def)

lemma keyword_score_nonempty:
  "jd_keys \<noteq> {||} \<Longrightarrow>
   keyword_score res_keys jd_keys
     = real (fcard (res_keys |\<inter>| jd_keys)) / real (fcard jd_keys) * 100"
  by (simp add: keyword_score_def Let_def)

lemma fcard_pos: "A \<noteq> {||} \<Longrightarrow> 0 < fcard A"
  by (metis fcard_0_eq gr0I)

lemma keyword_score_nonneg: "0 \<le> keyword_score res_keys jd_keys"
  by (simp add: keyword_score_def Let_def)

lemma keyword_score_le_100: "keyword_score res_keys jd_keys \<le> 100"
proof (cases "jd_keys = {||}")
  case True
  then show ?thesis by (simp add: keyword_score_empty)
next
  case False
  have "real (fcard (res_keys |\<inter>| jd_keys)) \<le> real (fcard jd_keys)"
    using fcard_inter_le [of res_keys jd_keys] by simp
  moreover have "0 < real (fcard jd_keys)" using fcard_pos [OF False] by simp
  ultimately have h: "real (fcard (res_keys |\<inter>| jd_keys)) / real (fcard jd_keys) \<le> 1"
    by (simp add: field_simps)
  have "real (fcard (res_keys |\<inter>| jd_keys)) / real (fcard jd_keys) * 100 \<le> 1 * 100"
    by (rule mult_right_mono [OF h]) simp
  then have "real (fcard (res_keys |\<inter>| jd_keys)) / real (fcard jd_keys) * 100 \<le> 100"
    by (simp only: mult_1)
  then show ?thesis unfolding keyword_score_nonempty [OF False] .
qed

text \<open>
  Claim C2. With no job-description keyword the keyword score is 0 and no keyword is
  missing; otherwise the score is 100 times the number of common keywords divided by
  the number of job-description keywords.
\<close>

theorem keyword_score_formula:
  "keyword_score res_keys {||} = 0 \<and>
   missing (score_report res_keys {||} similarity) = {||} \<and>
   (jd_keys \<noteq> {||} \<longrightarrow>
      keyword_score res_keys jd_keys
        = 100 * real (fcard (res_keys |\<inter>| jd_keys)) / real (fcard jd_keys))"
  by (simp add: keyword_score_def score_report_def Let_def)

theorem keyword_score_formula_witness:
  "keyword_score {|1::nat, 2|} {||} = 0 \<and>
   missing (score_report {|1::nat, 2|} {||} (1 / 2)) = {||} \<and>
   {|2::nat, 3, 4|} \<noteq> {||} \<and>
   keyword_score {|1::nat, 2|} {|2, 3, 4|}
     = 100 * real (fcard ({|1::nat, 2|} |\<inter>| {|2, 3, 4|})) / real (fcard {|2::nat, 3, 4|})"
  using keyword_score_formula [of "{|1::nat, 2|}" "1 / 2" "{|2, 3, 4|}"]
  by (simp add: fcard_fempty fcard_finsert_if)

text \<open>
  Claim C3. The reported matched set is the intersection of the two keyword sets and
  the missing set is the job-description keywords without the resume keywords; the
  two are disjoint, together they are the job-description keywords, and every matched
  keyword is a resume keyword.
\<close>

theorem matched_missing_set_laws:
  "matched (score_report res_keys jd_keys similarity) = res_keys |\<inter>| jd_keys \<and>
   missing (score_report res_keys jd_keys similarity) = jd_keys |-| res_keys \<and>
   matched (score_report res_keys jd_keys similarity)
     |\<union>| missing (score_report res_keys jd_keys similarity) = jd_keys \<and>
   matched (score_report res_keys jd_keys similarity)
     |\<inter>| missing (score_report res_keys jd_keys similarity) = {||} \<and>
   matched (score_report res_keys jd_keys similarity) |\<subseteq>| res_keys"
  by (auto simp: score_report_def Let_def)

text \<open>
  Claim C7. Adding to the job description a keyword that the resume has cannot lower
  the keyword score; adding one that the resume lacks cannot raise it.
\<close>

theorem keyword_score_monotonic:
  assumes "k |\<notin>| jd_keys"
  shows "(k |\<in>| res_keys \<longrightarrow>
            keyword_score res_keys jd_keys \<le> keyword_score res_keys (finsert k jd_keys)) \<and>
         (k |\<notin>| res_keys \<longrightarrow>
            keyword_score res_keys (finsert k jd_keys) \<le> keyword_score res_keys jd_keys)"
proof (intro conjI impI)
  let ?m = "fcard (res_keys |\<inter>| jd_keys)" and ?n = "fcard jd_keys"
  have mn: "?m \<le> ?n" by (rule fcard_inter_le)
  have n': "fcard (finsert k jd_keys) = Suc ?n"
    using assms by (simp add: fcard_finsert_disjoint)
  have new: "keyword_score res_keys (finsert k jd_keys)
      = real (fcard (res_keys |\<inter>| finsert k jd_keys)) / real (Suc ?n) * 100"
    by (simp add: keyword_score_nonempty n')
  {
    assume k: "k |\<in>| res_keys"
    have "res_keys |\<inter>| finsert k jd_keys = finsert k (res_keys |\<inter>| jd_keys)"
      using k by auto
    moreover have "k |\<notin>| res_keys |\<inter>| jd_keys" using assms by simp
    ultimately have m': "fcard (res_keys |\<inter>| finsert k jd_keys) = Suc ?m"
      by (simp add: fcard_finsert_disjoint)
    show "keyword_score res_keys jd_keys \<le> keyword_score res_keys (finsert k jd_keys)"
    proof (cases "jd_keys = {||}")
      case True
      then show ?thesis by (simp add: keyword_score_empty keyword_score_nonneg)
    next
      case False
      show ?thesis
        unfolding new m' keyword_score_nonempty [OF False]
        by (rule ratio_up [OF mn fcard_pos [OF False]])
    qed
  }
  {
    assume k: "k |\<notin>| res_keys"
    have "res_keys |\<inter>| finsert k jd_keys = res_keys |\<inter>| jd_keys" using k by auto
    then have m': "fcard (res_keys |\<inter>| finsert k jd_keys) = ?m" by simp
    show "keyword_score res_keys (finsert k jd_keys) \<le> keyword_score res_keys jd_keys"
    proof (cases "jd_keys = {||}")
      case True
      then show ?thesis unfolding new m' by (simp add: keyword_score_empty fcard_fempty)
    next
      case False
      show ?thesis
        unfolding new m' keyword_score_nonempty [OF False]
        by (rule ratio_down [OF fcard_pos [OF False]])
    qed
  }
qed

theorem keyword_score_monotonic_witness:
  "(3::nat) |\<notin>| {|1, 2|} \<and>
   keyword_score {|1, 3|} {|1::nat, 2|} \<le> keyword_score {|1, 3|} (finsert 3 {|1::nat, 2|}) \<and>
   keyword_score {|1|} (finsert 3 {|1::nat, 2|}) \<le> keyword_score {|1|} {|1::nat, 2|}"
proof -
  have h: "(3::nat) |\<notin>| {|1, 2|}" by simp
  show ?thesis
    using h keyword_score_monotonic [OF h, of "{|1, 3|}"] keyword_score_monotonic [OF h, of "{|1|}"]
    by simp
qed

section \<open>Properties of keyword extraction\<close>

lemma keywords_loop_fset:
  "fset (keywords_loop doc ks) =
     fset ks \<union>
     {tok_text tok | tok. tok \<in> set doc \<and> (pos tok = ''NOUN'' \<or> pos tok = ''PROPN'') \<and>
        \<not> is_stop tok \<and> 2 < length (tok_text tok) \<and> tok_text tok |\<notin>| ignored}"
  by (induction doc arbitrary: ks) auto

lemma ignored_iff:
  "w |\<in>| ignored \<longleftrightarrow>
   w \<in> str ` {''team'', ''work'', ''skills'', ''experience'', ''role'', ''time'', ''services'',
     ''solutions'', ''environment''}"
  by (simp add: ignored_def)

text \<open>
  Claim C4. Whatever the tagger returns for the lower-cased text, the keywords are
  exactly the surface texts of the tokens that are tagged as common or proper noun,
  are not stop words, are longer than two characters and are not on the ignore list.
  The result is a set: a text that occurs in several tokens is one keyword.
\<close>

theorem extract_keywords_rule:
  "fset (extract_keywords L t) =
     {tok_text tok | tok. tok \<in> set (nlp L (lower L t)) \<and>
        (pos tok = ''NOUN'' \<or> pos tok = ''PROPN'') \<and> \<not> is_stop tok \<and>
        2 < length (tok_text tok) \<and>
        tok_text tok \<notin> str ` {''team'', ''work'', ''skills'', ''experience'', ''role'', ''time'',
          ''services'', ''solutions'', ''environment''}}"
  by (simp add: extract_keywords_def keywords_loop_fset ignored_iff)

theorem extract_keywords_rule_witness:
  "fset (extract_keywords
      \<lparr> lower = id,
        nlp = (\<lambda>t. [\<lparr>tok_text = str ''python'', pos = ''NOUN'', is_stop = False\<rparr>,
                     \<lparr>tok_text = str ''team'', pos = ''NOUN'', is_stop = False\<rparr>,
                     \<lparr>tok_text = str ''is'', pos = ''AUX'', is_stop = True\<rparr>,
                     \<lparr>tok_text = str ''go'', pos = ''PROPN'', is_stop = False\<rparr>,
                     \<lparr>tok_text = str ''python'', pos = ''PROPN'', is_stop = False\<rparr>]),
        encode = (\<lambda>t. ()), cos_sim = (\<lambda>a b. 1 / 2) \<rparr> (str ''python team is go python''))
   = {str ''python''}"
  using extract_keywords_rule [of
      "\<lparr> lower = id,
        nlp = (\<lambda>t. [\<lparr>tok_text = str ''python'', pos = ''NOUN'', is_stop = False\<rparr>,
                     \<lparr>tok_text = str ''team'', pos = ''NOUN'', is_stop = False\<rparr>,
                     \<lparr>tok_text = str ''is'', pos = ''AUX'', is_stop = True\<rparr>,
                     \<lparr>tok_text = str ''go'', pos = ''PROPN'', is_stop = False\<rparr>,
                     \<lparr>tok_text = str ''python'', pos = ''PROPN'', is_stop = False\<rparr>]),
        encode = (\<lambda>t. ()), cos_sim = (\<lambda>a b. 1 / 2) \<rparr>" "str ''python team is go python''"]
  by (simp add: extract_keywords_def ignored_def str_def)

section \<open>Properties of the final score\<close>

text \<open>
  Claim C1. The final score is the weighted sum of the unrounded keyword score (weight
  0.6) and the unrounded semantic score (weight 0.4), rounded to one decimal; with a
  keyword score of 80 and a semantic score of 50 it is 68.
\<close>

theorem final_score_weighting:
  "final (score_report res_keys jd_keys similarity)
     = round1 (keyword_score res_keys jd_keys * (6 / 10) + similarity * 100 * (4 / 10)) \<and>
   final (calculate_scores L resume_text jd_text)
     = round1 (keyword_score (extract_keywords L (clean_text resume_text))
                 (extract_keywords L (clean_text jd_text)) * (6 / 10)
               + cos_sim L (encode L (clean_text resume_text)) (encode L (clean_text jd_text))
                   * 100 * (4 / 10)) \<and>
   (keyword_score res_keys jd_keys = 80 \<and> similarity * 100 = 50 \<longrightarrow>
      final (score_report res_keys jd_keys similarity) = 68)"
proof -
  have a: "final (score_report res_keys jd_keys similarity)
      = round1 (keyword_score res_keys jd_keys * (6 / 10) + similarity * 100 * (4 / 10))"
    for res_keys jd_keys :: "'c fset" and similarity
    by (simp add: score_report_def Let_def)
  have b: "final (calculate_scores L resume_text jd_text)
      = round1 (keyword_score (extract_keywords L (clean_text resume_text))
                 (extract_keywords L (clean_text jd_text)) * (6 / 10)
               + cos_sim L (encode L (clean_text resume_text)) (encode L (clean_text jd_text))
                   * 100 * (4 / 10))"
    by (simp add: calculate_scores_def Let_def a)
  have c: "final (score_report res_keys jd_keys similarity) = 68"
    if k: "keyword_score res_keys jd_keys = 80" and s: "similarity * 100 = 50"
  proof -
    have "final (score_report res_keys jd_keys similarity)
        = round1 (80 * (6 / 10) + 50 * (4 / 10))"
      unfolding a k s ..
    also have "\<dots> = 68"
      by (simp add: round1_def round_half_even_def Let_def)
    finally show ?thesis .
  qed
  from a b c show ?thesis by blast
qed

theorem final_score_weighting_witness:
  "keyword_score {|1::nat, 2, 3, 4|} {|1, 2, 3, 4, 5|} = 80 \<and> (1 / 2 :: real) * 100 = 50 \<and>
   final (score_report {|1::nat, 2, 3, 4|} {|1, 2, 3, 4, 5|} (1 / 2)) = 68"
proof -
  have h: "keyword_score {|1::nat, 2, 3, 4|} {|1, 2, 3, 4, 5|} = 80"
    by (simp add: keyword_score_def Let_def fcard_finsert_if fcard_fempty)
  have s: "(1 / 2 :: real) * 100 = 50" by simp
  show ?thesis
    using h s final_score_weighting [of "{|1::nat, 2, 3, 4|}" "{|1, 2, 3, 4, 5|}" "1 / 2"]
    by blast
qed

text \<open>
  Rounding to one decimal keeps a score inside the interval from 0 to 100. So the final
  score is in that interval whenever the similarity is between 0 and 1.
\<close>

lemma round_half_even_bounds:
  assumes "0 \<le> x" and "x \<le> of_int n"
  shows "0 \<le> round_half_even x \<and> round_half_even x \<le> n"
proof -
  have f0: "0 \<le> \<lfloor>x\<rfloor>" using assms(1) by simp
  have fn: "\<lfloor>x\<rfloor> \<le> n" using assms(2) by (simp add: floor_le_iff)
  have "\<lfloor>x\<rfloor> + 1 \<le> n" if "x - of_int \<lfloor>x\<rfloor> \<noteq> 0"
  proof -
    have "of_int \<lfloor>x\<rfloor> < x" using that by (metis eq_iff_diff_eq_0 of_int_floor_le order_less_le)
    then have "of_int \<lfloor>x\<rfloor> < (of_int n :: real)" using assms(2) by linarith
    then show ?thesis by simp
  qed
  with f0 fn show ?thesis
    by (auto simp: round_half_even_def Let_def)
qed

lemma round1_bounds:
  assumes "0 \<le> x" and "x \<le> 100"
  shows "0 \<le> round1 x \<and> round1 x \<le> 100"
proof -
  have "0 \<le> x * 10" and "x * 10 \<le> of_int 1000" using assms by simp_all
  from round_half_even_bounds [OF this]
  have "0 \<le> round_half_even (x * 10)" and "round_half_even (x * 10) \<le> 1000" by simp_all
  then have "0 \<le> (of_int (round_half_even (x * 10)) :: real)"
    and "(of_int (round_half_even (x * 10)) :: real) \<le> 1000"
    by simp_all
  then show ?thesis by (simp add: round1_def)
qed

lemma final_score_bounds_unit_similarity:
  assumes "0 \<le> similarity" and "similarity \<le> 1"
  shows "0 \<le> final (score_report res_keys jd_keys similarity) \<and>
         final (score_report res_keys jd_keys similarity) \<le> 100"
proof -
  let ?k = "keyword_score res_keys jd_keys"
  have k: "0 \<le> ?k" "?k \<le> 100"
    by (rule keyword_score_nonneg, rule keyword_score_le_100)
  have "0 \<le> ?k * (6 / 10) + similarity * 100 * (4 / 10)"
    using k(1) assms(1) by simp
  moreover have "?k * (6 / 10) + similarity * 100 * (4 / 10) \<le> 100"
    using k(2) assms(2) by simp
  ultimately show ?thesis
    using round1_bounds by (simp add: score_report_def Let_def)
qed

text \<open>
  Claim C6. The keyword score is between 0 and 100 for all keyword sets
  (\<open>keyword_score_nonneg\<close>, \<open>keyword_score_le_100\<close>), but the final score is not
  bounded below by 0 for all embedding vectors: \<open>calculate_scores\<close> uses the cosine
  similarity as it comes, and a cosine similarity can be negative. With no
  job-description keyword and the embeddings \<open>[1, 0]\<close> and \<open>[-1, 0]\<close> the final
  score is -40; with a similarity of -0.05 it is -2.
\<close>

theorem final_score_below_zero:
  "final (calculate_scores
      \<lparr> lower = id, nlp = (\<lambda>t. []),
        encode = (\<lambda>t. if t = str ''b'' then [- 1, 0] else [1, 0]),
        cos_sim = cosine \<rparr> (str ''a'') (str ''b'')) = - 40 \<and>
   final (score_report {||} ({||} :: ustring fset) (- 1 / 20)) = - 2"
  by (simp add: calculate_scores_def score_report_def keyword_score_def extract_keywords_def
      Let_def fcard_fempty round1_def round_half_even_def cosine_def dot_def
      clean_text_def remove_bullets_def bullet_def strip_def lstrip_def rstrip_def
      isspace_def SPACE_def str_def)

section \<open>Determinism of the scoring\<close>




text \<open>
  The hypothesis is needed. With a tagger whose result depends on the state (here on
  the parity of a call counter) the second call, made in the state 5 that the first
  call leaves, reports a missing keyword where the first call reports none.
\<close>

lemma calculate_scores_run_stateful_tagger:
  "snd (calculate_scores_run
      \<lparr> str_lower = id,
        nlp_call = (\<lambda>t s. (if even s
                            then [\<lparr>tok_text = str ''python'', pos = ''NOUN'', is_stop = False\<rparr>]
                            else [], Suc s)),
        encode_call = (\<lambda>t s. ([1, 0 :: real], Suc s)),
        cos_sim_call = (\<lambda>a b s. (dot a b / 2, Suc s)) \<rparr> (str ''a'') (str ''a'') (0::nat)) = 5 \<and>
   missing (fst (calculate_scores_run
      \<lparr> str_lower = id,
        nlp_call = (\<lambda>t s. (if even s
                            then [\<lparr>tok_text = str ''python'', pos = ''NOUN'', is_stop = False\<rparr>]
                            else [], Suc s)),
        encode_call = (\<lambda>t s. ([1, 0 :: real], Suc s)),
        cos_sim_call = (\<lambda>a b s. (dot a b / 2, Suc s)) \<rparr> (str ''a'') (str ''a'') (0::nat))) = {||} \<and>
   missing (fst (calculate_scores_run
      \<lparr> str_lower = id,
        nlp_call = (\<lambda>t s. (if even s
                            then [\<lparr>tok_text = str ''python'', pos = ''NOUN'', is_stop = False\<rparr>]
                            else [], Suc s)),
        encode_call = (\<lambda>t s. ([1, 0 :: real], Suc s)),
        cos_sim_call = (\<lambda>a b s. (dot a b / 2, Suc s)) \<rparr> (str ''a'') (str ''a'') (5::nat))) = {|str ''python''|}"
proof -
  have i: "str ''python'' |\<notin>| ignored"
    by (simp add: ignored_def str_def)
  have l: "2 < length (str ''python'')"
    by (simp add: str_def)
  show ?thesis
    using i l
    by (simp add: calculate_scores_run_def extract_keywords_run_def Let_def split_def
      score_report_def)
qed

section \<open>Properties of text extraction\<close>

lemma read_pages_Raises: "read_pages pages t = Raises \<longleftrightarrow> Raises \<in> set pages"
  by (induction pages arbitrary: t) (auto split: outcome.splits)

text \<open>
  Claim C10. \<open>read_file\<close> never raises. It returns \<open>None\<close> when the body raises: when the
  PDF parser raises, when the text extraction of a page raises, or when the DOCX parser
  raises. It returns \<open>None\<close> as well when the content type is neither
  \<open>application/pdf\<close> nor one that contains \<open>wordprocessingml\<close>, by leaving the body
  without a \<open>return\<close>. In every other case it returns what the body returns.
\<close>

theorem read_file_never_raises:
  "read_file P uploaded \<noteq> Raises \<and>
   (read_file_body P uploaded = Raises \<longrightarrow> read_file P uploaded = Returns None) \<and>
   (type uploaded = ''application/pdf'' \<and> PdfReader P uploaded = Raises \<longrightarrow>
      read_file P uploaded = Returns None) \<and>
   (type uploaded = ''application/pdf'' \<and> PdfReader P uploaded = Returns pages \<and>
      Raises \<in> set pages \<longrightarrow> read_file P uploaded = Returns None) \<and>
   (type uploaded \<noteq> ''application/pdf'' \<and> sublist ''wordprocessingml'' (type uploaded) \<and>
      Document P uploaded = Raises \<longrightarrow> read_file P uploaded = Returns None) \<and>
   (type uploaded \<noteq> ''application/pdf'' \<and> \<not> sublist ''wordprocessingml'' (type uploaded) \<longrightarrow>
      read_file P uploaded = Returns None) \<and>
   (read_file_body P uploaded = Returns v \<longrightarrow> read_file P uploaded = Returns v)"
  using read_pages_Raises [of pages "[]"]
  by (auto simp: read_file_def read_file_body_def split: outcome.splits)

theorem read_file_never_raises_witness:
  "type \<lparr> type = ''application/pdf'', content = [] \<rparr> = ''application/pdf'' \<and>
   PdfReader \<lparr> PdfReader = (\<lambda>f. Returns [Returns (Some (str ''a'')), Raises]),
               Document = (\<lambda>f. Raises) \<rparr> \<lparr> type = ''application/pdf'', content = [] \<rparr>
     = Returns [Returns (Some (str ''a'')), Raises] \<and>
   Raises \<in> set [Returns (Some (str ''a'')), Raises] \<and>
   read_file \<lparr> PdfReader = (\<lambda>f. Returns [Returns (Some (str ''a'')), Raises]),
              Document = (\<lambda>f. Raises) \<rparr>
     \<lparr> type = ''application/pdf'', content = [] \<rparr> = Returns None"
  using read_file_never_raises [of
      "\<lparr> PdfReader = (\<lambda>f. Returns [Returns (Some (str ''a'')), Raises]),
         Document = (\<lambda>f. Raises) \<rparr>"
      "\<lparr> type = ''application/pdf'', content = [] \<rparr>"
      "[Returns (Some (str ''a'')), Raises]"]
  by simp

text \<open>
  Claim C9. When the button is pressed with a job description and a file, and
  \<open>read_file\<close> returns the empty text, \<open>main\<close> does what it does when \<open>read_file\<close>
  returns \<open>None\<close>: it does not call \<open>calculate_scores\<close> and shows no report. A report
  is shown exactly for a non-empty text.
\<close>

theorem empty_text_skips_pipeline:
  assumes "jd_input \<noteq> []"
  shows "(read_file P uploaded_file = Returns (Some []) \<longrightarrow>
            main P L True jd_input (Some uploaded_file) = Returns Nothing_shown) \<and>
         (read_file P uploaded_file = Returns None \<longrightarrow>
            main P L True jd_input (Some uploaded_file) = Returns Nothing_shown) \<and>
         (read_file P uploaded_file = Returns (Some t) \<and> t \<noteq> [] \<longrightarrow>
            main P L True jd_input (Some uploaded_file)
              = Returns (Results (calculate_scores L t jd_input)))"
  using assms by (simp add: main_def)

theorem empty_text_skips_pipeline_witness:
  "str ''x'' \<noteq> [] \<and>
   read_file \<lparr> PdfReader = (\<lambda>f. Returns [Returns None, Returns (Some [])]),
              Document = (\<lambda>f. Raises) \<rparr>
     \<lparr> type = ''application/pdf'', content = [] \<rparr> = Returns (Some []) \<and>
   main \<lparr> PdfReader = (\<lambda>f. Returns [Returns None, Returns (Some [])]),
          Document = (\<lambda>f. Raises) \<rparr>
     \<lparr> lower = id, nlp = (\<lambda>t. []), encode = (\<lambda>t. ()), cos_sim = (\<lambda>a b. 1 / 2) \<rparr>
     True (str ''x'') (Some \<lparr> type = ''application/pdf'', content = [] \<rparr>) = Returns Nothing_shown"
proof -
  have j: "str ''x'' \<noteq> []"
    by (simp add: str_def)
  have r: "read_file \<lparr> PdfReader = (\<lambda>f. Returns [Returns None, Returns (Some [])]),
              Document = (\<lambda>f. Raises) \<rparr>
     \<lparr> type = ''application/pdf'', content = [] \<rparr> = Returns (Some [])"
    by (simp add: read_file_def read_file_body_def)
  show ?thesis
    using j r empty_text_skips_pipeline [OF j, of
      "\<lparr> PdfReader = (\<lambda>f. Returns [Returns None, Returns (Some [])]),
         Document = (\<lambda>f. Raises) \<rparr>"
      "\<lparr> type = ''application/pdf'', content = [] \<rparr>"
      "\<lparr> lower = id, nlp = (\<lambda>t. []), encode = (\<lambda>t. ()), cos_sim = (\<lambda>a b. 1 / 2) \<rparr>"]
    by blast
qed

end
